theory Spec2Isabelle
  imports Complex_Main
begin

section \<open>pambu: the snake's geometric core (\<^verbatim>\<open>src/pambu.py\<close>)\<close>

text \<open>
  Modelling conventions.
  \<^item> Python's unbounded integers are \<^typ>\<open>int\<close>.
  \<^item> \<^verbatim>\<open>math.sqrt\<close> is the exact real square root (floating-point rounding is not modelled;
    on the axis-aligned segments of a snake the root is that of a perfect square).
  \<^item> A \<^verbatim>\<open>Point\<close> is a mutable object. The model passes points by value; where the source
    mutates a point that lives in \<^verbatim>\<open>Snake.points\<close> through a \<^verbatim>\<open>LineSegment\<close> that refers to it,
    the model writes the new value back at that point's index. This is the behaviour of the
    source whenever the entries of \<^verbatim>\<open>points\<close> are distinct objects, which \<^verbatim>\<open>Snake.__init__\<close>
    establishes and \<^verbatim>\<open>Snake.move\<close> keeps (the only insertion is a \<^verbatim>\<open>copy.deepcopy\<close>).
  \<^item> \<^verbatim>\<open>IndexError\<close> and the \<^verbatim>\<open>sys.exit(0)\<close> of a detected collision are values of type
    \<open>error\<close>; a function that can raise returns \<open>error + 'a\<close>.
\<close>

subsection \<open>Direction\<close>

datatype Direction = north | east | south | west

definition is_opp :: "Direction \<Rightarrow> Direction \<Rightarrow> bool" where
  "is_opp self other \<longleftrightarrow>
     (self = north \<and> other = south) \<or>
     (self = south \<and> other = north) \<or>
     (self = east \<and> other = west) \<or>
     (self = west \<and> other = east)"

subsection \<open>Point\<close>

record Point =
  y :: int
  x :: int

definition distance_from :: "Point \<Rightarrow> Point \<Rightarrow> real" where
  "distance_from self other =
     (let dy = y other - y self; dx = x other - x self
      in sqrt (real_of_int (dy\<^sup>2 + dx\<^sup>2)))"

definition has_same_y :: "Point \<Rightarrow> Point \<Rightarrow> bool" where
  "has_same_y self other \<longleftrightarrow> y self = y other"

definition has_same_x :: "Point \<Rightarrow> Point \<Rightarrow> bool" where
  "has_same_x self other \<longleftrightarrow> x self = x other"

definition is_to_the_left_of :: "Point \<Rightarrow> Point \<Rightarrow> bool" where
  "is_to_the_left_of self other \<longleftrightarrow> x self \<le> x other"

definition is_to_the_right_of :: "Point \<Rightarrow> Point \<Rightarrow> bool" where
  "is_to_the_right_of self other \<longleftrightarrow> x self \<ge> x other"

definition is_above :: "Point \<Rightarrow> Point \<Rightarrow> bool" where
  "is_above self other \<longleftrightarrow> y self \<le> y other"

definition is_below :: "Point \<Rightarrow> Point \<Rightarrow> bool" where
  "is_below self other \<longleftrightarrow> y self \<ge> y other"

text \<open>\<^verbatim>\<open>Point.move\<close>: one unit in the given direction (the new value of the point).\<close>

fun point_move :: "Direction \<Rightarrow> Point \<Rightarrow> Point" where
  "point_move north p = p\<lparr>y := y p - 1\<rparr>"
| "point_move west p = p\<lparr>x := x p - 1\<rparr>"
| "point_move south p = p\<lparr>y := y p + 1\<rparr>"
| "point_move east p = p\<lparr>x := x p + 1\<rparr>"

subsection \<open>LineSegment\<close>

record LineSegment =
  head :: Point
  tail :: Point

text \<open>\<^verbatim>\<open>LineSegment.length\<close>.\<close>

definition seg_length :: "LineSegment \<Rightarrow> real" where
  "seg_length self = distance_from (head self) (tail self)"

definition is_vertical :: "LineSegment \<Rightarrow> bool" where
  "is_vertical self \<longleftrightarrow> has_same_x (head self) (tail self)"

definition is_horizontal :: "LineSegment \<Rightarrow> bool" where
  "is_horizontal self \<longleftrightarrow> has_same_y (head self) (tail self)"

text \<open>
  \<^verbatim>\<open>increment\<close> mutates the head point and \<^verbatim>\<open>decrement\<close> the tail point; the model returns
  the segment with the new endpoint. A segment that is neither horizontal nor vertical is
  left as it is.
\<close>

definition increment :: "LineSegment \<Rightarrow> LineSegment" where
  "increment self =
     (if is_horizontal self then
        (if x (head self) < x (tail self)
         then self\<lparr>head := point_move west (head self)\<rparr>
         else self\<lparr>head := point_move east (head self)\<rparr>)
      else if is_vertical self then
        (if y (head self) < y (tail self)
         then self\<lparr>head := point_move north (head self)\<rparr>
         else self\<lparr>head := point_move south (head self)\<rparr>)
      else self)"

definition decrement :: "LineSegment \<Rightarrow> LineSegment" where
  "decrement self =
     (if is_horizontal self then
        (if x (head self) < x (tail self)
         then self\<lparr>tail := point_move west (tail self)\<rparr>
         else self\<lparr>tail := point_move east (tail self)\<rparr>)
      else if is_vertical self then
        (if y (head self) < y (tail self)
         then self\<lparr>tail := point_move north (tail self)\<rparr>
         else self\<lparr>tail := point_move south (tail self)\<rparr>)
      else self)"

text \<open>
  \<^verbatim>\<open>lies_on\<close> returns a boolean for a horizontal or vertical segment (horizontal is tested
  first) and falls off the end, returning \<^verbatim>\<open>None\<close>, for any other segment.
\<close>

definition lies_on :: "LineSegment \<Rightarrow> Point \<Rightarrow> bool option" where
  "lies_on self point =
     (if is_horizontal self then
        Some (x point \<le> max (x (head self)) (x (tail self)) \<and>
              x point \<ge> min (x (head self)) (x (tail self)) \<and>
              y point = y (head self))
      else if is_vertical self then
        Some (y point \<le> max (y (head self)) (y (tail self)) \<and>
              y point \<ge> min (y (head self)) (y (tail self)) \<and>
              x point = x (head self))
      else None)"

definition intersection_point :: "LineSegment \<Rightarrow> LineSegment \<Rightarrow> Point option" where
  "intersection_point self other =
     (if head self = head other \<or> head self = tail other then Some (head self)
      else if tail self = head other \<or> tail self = tail other then Some (tail self)
      else None)"

text \<open>The four corner glyphs of curses that \<^verbatim>\<open>join\<close> can write.\<close>

datatype chtype = ACS_ULCORNER | ACS_LLCORNER | ACS_URCORNER | ACS_LRCORNER

text \<open>
  The inner function \<^verbatim>\<open>join_char\<close> of \<^verbatim>\<open>join\<close>; the intersection point, a variable of the
  enclosing scope in the source, is its first argument here.
\<close>

definition join_char :: "Point \<Rightarrow> LineSegment \<Rightarrow> LineSegment \<Rightarrow> chtype option" where
  "join_char ipoint hline vline =
     (if is_to_the_left_of ipoint (head hline) \<and> is_to_the_left_of ipoint (tail hline) then
        (if is_above ipoint (head vline) \<and> is_above ipoint (tail vline) then Some ACS_ULCORNER
         else if is_below ipoint (head vline) \<and> is_below ipoint (tail vline) then Some ACS_LLCORNER
         else None)
      else if is_to_the_right_of ipoint (head hline) \<and> is_to_the_right_of ipoint (tail hline) then
        (if is_above ipoint (head vline) \<and> is_above ipoint (tail vline) then Some ACS_URCORNER
         else if is_below ipoint (head vline) \<and> is_below ipoint (tail vline) then Some ACS_LRCORNER
         else None)
      else None)"

text \<open>
  The window is the map from a cell \<open>(y, x)\<close> to the glyph written there; \<^verbatim>\<open>window.addch\<close>
  updates one cell (the bounds of the window are not modelled). The argument \<^verbatim>\<open>other\<close> is
  \<^verbatim>\<open>None\<close> on the first call of \<^verbatim>\<open>Snake.draw\<close>, which fails the \<^verbatim>\<open>isinstance\<close> test.
\<close>

type_synonym window = "int \<times> int \<Rightarrow> chtype option"

definition addch :: "int \<Rightarrow> int \<Rightarrow> chtype \<Rightarrow> window \<Rightarrow> window" where
  "addch cy cx ch w = w((cy, cx) \<mapsto> ch)"

definition join :: "LineSegment \<Rightarrow> LineSegment option \<Rightarrow> window \<Rightarrow> window" where
  "join self other_opt w =
     (case other_opt of
        None \<Rightarrow> w
      | Some other \<Rightarrow>
          (let hline0 = (if is_vertical self then None
                         else if is_horizontal self then Some self else None);
               vline0 = (if is_vertical self then Some self else None);
               hline = (if is_vertical other then hline0
                        else if is_horizontal other then Some other else hline0);
               vline = (if is_vertical other then Some other else vline0)
           in case (hline, vline) of
                (Some h, Some v) \<Rightarrow>
                  (if h \<noteq> v then
                     (case intersection_point h v of
                        None \<Rightarrow> w
                      | Some ipoint \<Rightarrow>
                          (case join_char ipoint h v of
                             None \<Rightarrow> w
                           | Some ch \<Rightarrow> addch (y ipoint) (x ipoint) ch w))
                   else w)
              | _ \<Rightarrow> w))"

subsection \<open>Snake\<close>

record Snake =
  points :: "Point list"
  direction :: Direction

text \<open>
  \<open>IndexError\<close> is Python's exception on \<^verbatim>\<open>points[0]\<close>, \<^verbatim>\<open>points[1]\<close> or \<^verbatim>\<open>points[-2]\<close> of a list that
  is too short; \<open>Collision\<close> is the end of the process in \<^verbatim>\<open>detect_collision\<close>
  (\<^verbatim>\<open>curses.endwin()\<close>, the message, \<^verbatim>\<open>sys.exit(0)\<close>).
\<close>

datatype error = IndexError | Collision

text \<open>
  The loop of \<^verbatim>\<open>detect_collision\<close> over \<^verbatim>\<open>zip(self.points[1:-1], self.points[2:])\<close>: the first
  segment the head lies on ends the process.
\<close>

fun collision_loop :: "Point \<Rightarrow> (Point \<times> Point) list \<Rightarrow> error + unit" where
  "collision_loop hd_point [] = Inr ()"
| "collision_loop hd_point ((prev_point, curr_point) # rest) =
     (if lies_on \<lparr>head = prev_point, tail = curr_point\<rparr> hd_point = Some True
      then Inl Collision
      else collision_loop hd_point rest)"

definition detect_collision :: "Snake \<Rightarrow> error + unit" where
  "detect_collision self =
     (case points self of
        [] \<Rightarrow> Inl IndexError
      | hd_point # _ \<Rightarrow>
          collision_loop hd_point (zip (butlast (tl (points self))) (drop 2 (points self))))"

text \<open>
  \<^verbatim>\<open>Snake.move\<close> in its three phases. \<open>move_head\<close> is the branch on the requested direction
  (lines 234 to 242): \<^verbatim>\<open>first_seg.increment()\<close> writes the new head into \<^verbatim>\<open>points[0]\<close>, the
  turn prepends the moved copy of the head. \<open>shrink_tail\<close> is lines 244 to 246:
  \<^verbatim>\<open>last_seg\<close> refers to the last two points of the list, whose current values it reads, and
  \<^verbatim>\<open>decrement\<close> writes the last one. Both are called with at least two points.
\<close>

definition move_head :: "Direction option \<Rightarrow> Snake \<Rightarrow> Snake" where
  "move_head dir_opt self =
     (let ps = points self;
          first_seg = \<lparr>head = ps ! 0, tail = ps ! 1\<rparr>
      in case dir_opt of
           None \<Rightarrow> self\<lparr>points := ps[0 := head (increment first_seg)]\<rparr>
         | Some d \<Rightarrow>
             if d = direction self \<or> is_opp d (direction self)
             then self\<lparr>points := ps[0 := head (increment first_seg)]\<rparr>
             else self\<lparr>points := point_move d (head first_seg) # ps, direction := d\<rparr>)"

definition shrink_tail :: "Snake \<Rightarrow> Snake" where
  "shrink_tail self =
     (let ps = points self;
          n = length ps;
          last_seg = decrement \<lparr>head = ps ! (n - 2), tail = ps ! (n - 1)\<rparr>;
          ps' = ps[n - 1 := tail last_seg]
      in if seg_length last_seg = 0
         then self\<lparr>points := butlast ps'\<rparr>
         else self\<lparr>points := ps'\<rparr>)"

definition snake_move :: "Direction option \<Rightarrow> Snake \<Rightarrow> error + Snake" where
  "snake_move dir_opt self =
     (if length (points self) < 2 then Inl IndexError
      else
        (let s1 = move_head dir_opt self
         in case detect_collision s1 of
              Inl e \<Rightarrow> Inl e
            | Inr _ \<Rightarrow> Inr (shrink_tail s1)))"

subsection \<open>Vocabulary of the properties\<close>

text \<open>
  The body segments, head first, as \<^verbatim>\<open>Snake.draw\<close> forms them from
  \<^verbatim>\<open>zip(self.points[:-1], self.points[1:])\<close>, and the total body length.
\<close>

definition segments :: "Point list \<Rightarrow> LineSegment list" where
  "segments ps = map (\<lambda>(p, q). \<lparr>head = p, tail = q\<rparr>) (zip (butlast ps) (tl ps))"

definition total_length :: "Point list \<Rightarrow> real" where
  "total_length ps = sum_list (map seg_length (segments ps))"

definition axis_aligned :: "LineSegment \<Rightarrow> bool" where
  "axis_aligned seg \<longleftrightarrow> is_horizontal seg \<or> is_vertical seg"

text \<open>
  A well-formed body: at least two points, and every segment axis-aligned and of positive
  length.
\<close>

definition well_formed :: "Point list \<Rightarrow> bool" where
  "well_formed ps \<longleftrightarrow>
     2 \<le> length ps \<and> (\<forall>seg \<in> set (segments ps). axis_aligned seg \<and> 0 < seg_length seg)"

text \<open>
  The structural invariant in its weaker reading: at least two points, every segment
  axis-aligned, and the tail segment not of length 0.
\<close>

definition snake_inv :: "Point list \<Rightarrow> bool" where
  "snake_inv ps \<longleftrightarrow>
     2 \<le> length ps \<and> (\<forall>seg \<in> set (segments ps). axis_aligned seg) \<and>
     seg_length (last (segments ps)) \<noteq> 0"

text \<open>
  The requests on which \<^verbatim>\<open>Snake.move\<close> extends the head segment in place: no direction,
  the current direction, or its opposite (the condition of lines 234 to 236).
\<close>

definition straight_request :: "Direction option \<Rightarrow> Snake \<Rightarrow> bool" where
  "straight_request dir_opt self \<longleftrightarrow>
     (case dir_opt of
        None \<Rightarrow> True
      | Some d \<Rightarrow> d = direction self \<or> is_opp d (direction self))"

section \<open>Auxiliary facts\<close>

lemma segments_Nil [simp]: "segments [] = []"
  by (simp add: segments_def)

lemma segments_single [simp]: "segments [p] = []"
  by (simp add: segments_def)

lemma segments_Cons2 [simp]:
  "segments (p # q # ps) = \<lparr>head = p, tail = q\<rparr> # segments (q # ps)"
  by (simp add: segments_def)

lemma segments_tl: "segments (tl ps) = tl (segments ps)"
  by (induction ps rule: induct_list012) simp_all

lemma segments_snoc2:
  "segments (qs @ [r, t]) = segments (qs @ [r]) @ [\<lparr>head = r, tail = t\<rparr>]"
  by (induction qs rule: induct_list012) simp_all

lemma total_length_Cons2:
  "total_length (p # q # ps) = seg_length \<lparr>head = p, tail = q\<rparr> + total_length (q # ps)"
  by (simp add: total_length_def)

lemma total_length_snoc2:
  "total_length (qs @ [r, t]) = total_length (qs @ [r]) + seg_length \<lparr>head = r, tail = t\<rparr>"
  by (simp add: total_length_def segments_snoc2)

lemma seg_length_nonneg: "0 \<le> seg_length s"
  by (simp add: seg_length_def distance_from_def Let_def)

lemma seg_length_horizontal:
  "is_horizontal s \<Longrightarrow> seg_length s = \<bar>real_of_int (x (tail s) - x (head s))\<bar>"
  by (simp add: is_horizontal_def has_same_y_def seg_length_def distance_from_def Let_def)

lemma seg_length_vertical:
  "is_vertical s \<Longrightarrow> seg_length s = \<bar>real_of_int (y (tail s) - y (head s))\<bar>"
  by (simp add: is_vertical_def has_same_x_def seg_length_def distance_from_def Let_def)

lemma seg_length_zero_iff: "seg_length s = 0 \<longleftrightarrow> head s = tail s"
proof -
  have "seg_length s = 0 \<longleftrightarrow> y (tail s) = y (head s) \<and> x (tail s) = x (head s)"
    by (simp add: seg_length_def distance_from_def Let_def)
  also have "\<dots> \<longleftrightarrow> head s = tail s"
    by (cases "head s"; cases "tail s") auto
  finally show ?thesis .
qed

lemmas geom_defs = axis_aligned_def is_horizontal_def is_vertical_def has_same_y_def has_same_x_def
  seg_length_def distance_from_def Let_def

lemma increment_good:
  assumes "axis_aligned s" and "0 < seg_length s"
  shows "axis_aligned (increment s) \<and> seg_length (increment s) = seg_length s + 1 \<and> tail (increment s) = tail s"
  using assms by (auto simp: increment_def geom_defs)

lemma decrement_good:
  assumes "axis_aligned s" and "0 < seg_length s"
  shows "axis_aligned (decrement s) \<and> seg_length (decrement s) = seg_length s - 1 \<and> head (decrement s) = head s"
  using assms by (auto simp: decrement_def geom_defs)

lemma point_move_unit:
  "axis_aligned \<lparr>head = point_move d p, tail = p\<rparr> \<and> seg_length \<lparr>head = point_move d p, tail = p\<rparr> = 1"
  by (cases d) (auto simp: geom_defs)

lemma well_formed_Cons2:
  "well_formed (p # q # ps) \<longleftrightarrow>
     axis_aligned \<lparr>head = p, tail = q\<rparr> \<and> 0 < seg_length \<lparr>head = p, tail = q\<rparr> \<and>
     (\<forall>seg \<in> set (segments (q # ps)). axis_aligned seg \<and> 0 < seg_length seg)"
  by (auto simp: well_formed_def)

lemma two_points_split: "2 \<le> length ps \<Longrightarrow> \<exists>p q rest. ps = p # q # rest"
  by (cases ps; cases "tl ps") auto

lemma two_points_snoc: "2 \<le> length ps \<Longrightarrow> \<exists>qs r t. ps = qs @ [r, t]"
proof -
  assume "2 \<le> length ps"
  then obtain p q rest where "rev ps = p # q # rest"
    using two_points_split [of "rev ps"] by auto
  then have "ps = rev rest @ [q, p]"
    by (simp add: rev_swap [symmetric])
  then show ?thesis by blast
qed

lemma move_head_well_formed:
  assumes "well_formed (points s)"
  shows "well_formed (points (move_head d s)) \<and>
         total_length (points (move_head d s)) = total_length (points s) + 1"
proof -
  from assms obtain p q rest where ps: "points s = p # q # rest"
    using two_points_split [of "points s"] by (auto simp: well_formed_def)
  let ?first = "\<lparr>head = p, tail = q\<rparr>"
  from assms ps have first: "axis_aligned ?first" "0 < seg_length ?first"
    and rest: "\<forall>seg \<in> set (segments (q # rest)). axis_aligned seg \<and> 0 < seg_length seg"
    by (simp_all add: well_formed_Cons2)
  note inc = increment_good [OF first]
  have inc_eq: "\<lparr>head = head (increment ?first), tail = q\<rparr> = increment ?first"
    using inc by (cases "increment ?first") simp
  show ?thesis
  proof (cases "case d of None \<Rightarrow> True | Some d' \<Rightarrow> d' = direction s \<or> is_opp d' (direction s)")
    case True
    then have pts: "points (move_head d s) = head (increment ?first) # q # rest"
      by (auto simp: move_head_def ps Let_def split: option.splits)
    show ?thesis
      using inc rest first by (simp add: pts ps well_formed_Cons2 total_length_Cons2 inc_eq)
  next
    case False
    then obtain d' where d: "d = Some d'" and turn: "d' \<noteq> direction s" "\<not> is_opp d' (direction s)"
      by (auto split: option.splits)
    have pts: "points (move_head d s) = point_move d' p # p # q # rest"
      using turn by (simp add: move_head_def ps Let_def d)
    show ?thesis
      using point_move_unit [of d' p] rest first
      by (simp add: pts ps well_formed_Cons2 total_length_Cons2)
  qed
qed

lemma total_length_single [simp]: "total_length [p] = 0"
  by (simp add: total_length_def)

lemma well_formed_snoc2:
  "well_formed (qs @ [r, t]) \<longleftrightarrow>
     axis_aligned \<lparr>head = r, tail = t\<rparr> \<and> 0 < seg_length \<lparr>head = r, tail = t\<rparr> \<and>
     (\<forall>seg \<in> set (segments (qs @ [r])). axis_aligned seg \<and> 0 < seg_length seg)"
  by (auto simp: well_formed_def segments_snoc2)

lemma shrink_tail_snoc2:
  "points s = qs @ [r, t] \<Longrightarrow>
   points (shrink_tail s) =
     (if seg_length (decrement \<lparr>head = r, tail = t\<rparr>) = 0 then qs @ [r]
      else qs @ [r, tail (decrement \<lparr>head = r, tail = t\<rparr>)])"
  by (simp add: shrink_tail_def Let_def nth_append list_update_append butlast_append)

lemma shrink_tail_well_formed:
  assumes wf: "well_formed (points s)" and long: "2 \<le> total_length (points s)"
  shows "well_formed (points (shrink_tail s)) \<and>
         total_length (points (shrink_tail s)) = total_length (points s) - 1"
proof -
  from wf obtain qs r t where ps: "points s = qs @ [r, t]"
    using two_points_snoc [of "points s"] by (auto simp: well_formed_def)
  let ?last = "\<lparr>head = r, tail = t\<rparr>"
  from wf ps have last: "axis_aligned ?last" "0 < seg_length ?last"
    and front: "\<forall>seg \<in> set (segments (qs @ [r])). axis_aligned seg \<and> 0 < seg_length seg"
    by (simp_all add: well_formed_snoc2)
  note dec = decrement_good [OF last]
  have dec_eq: "\<lparr>head = r, tail = tail (decrement ?last)\<rparr> = decrement ?last"
    using dec by (cases "decrement ?last") simp
  show ?thesis
  proof (cases "seg_length (decrement ?last) = 0")
    case True
    then have pts: "points (shrink_tail s) = qs @ [r]"
      by (simp add: shrink_tail_snoc2 [OF ps])
    from True dec have one: "seg_length ?last = 1" by simp
    with long have "1 \<le> total_length (qs @ [r])"
      by (simp add: ps total_length_snoc2)
    then have "qs \<noteq> []" by auto
    then have "2 \<le> length (qs @ [r])"
      by (cases qs) simp_all
    with front one show ?thesis
      by (simp add: pts ps well_formed_def total_length_snoc2)
  next
    case False
    then have pts: "points (shrink_tail s) = qs @ [r, tail (decrement ?last)]"
      by (simp add: shrink_tail_snoc2 [OF ps])
    from False have "0 < seg_length (decrement ?last)"
      using seg_length_nonneg [of "decrement ?last"] by simp
    with dec front show ?thesis
      by (simp add: pts ps well_formed_snoc2 total_length_snoc2 dec_eq)
  qed
qed

lemma abs_int_ge_1:
  fixes k :: int
  assumes "0 < \<bar>real_of_int k\<bar>"
  shows "1 \<le> \<bar>real_of_int k\<bar>"
proof -
  from assms have "1 \<le> \<bar>k\<bar>" by simp
  then have "(1::real) \<le> real_of_int \<bar>k\<bar>" by (simp only: of_int_1_le_iff)
  then show ?thesis by simp
qed

lemma seg_length_ge_1:
  assumes "axis_aligned s" and "0 < seg_length s"
  shows "1 \<le> seg_length s"
proof (cases "is_horizontal s")
  case True
  with assms(2) show ?thesis
    using abs_int_ge_1 [of "x (tail s) - x (head s)"] by (simp only: seg_length_horizontal)
next
  case False
  with assms(1) have "is_vertical s" by (simp add: axis_aligned_def)
  with assms(2) show ?thesis
    using abs_int_ge_1 [of "y (tail s) - y (head s)"] by (simp only: seg_length_vertical)
qed

lemma total_length_ge_1: "well_formed ps \<Longrightarrow> 1 \<le> total_length ps"
proof -
  assume wf: "well_formed ps"
  then obtain p q rest where ps: "ps = p # q # rest"
    using two_points_split [of ps] by (auto simp: well_formed_def)
  have "0 \<le> total_length (q # rest)"
    by (auto simp: total_length_def intro!: sum_list_nonneg seg_length_nonneg)
  with wf seg_length_ge_1 [of "\<lparr>head = p, tail = q\<rparr>"] show ?thesis
    by (simp add: ps well_formed_Cons2 total_length_Cons2)
qed

lemma collision_loop_iff:
  "collision_loop h prs =
     (if \<exists>(p, q) \<in> set prs. lies_on \<lparr>head = p, tail = q\<rparr> h = Some True
      then Inl Collision else Inr ())"
  by (induction prs) auto

lemma detect_collision_eq:
  assumes "points s \<noteq> []"
  shows "detect_collision s =
     (if \<exists>seg \<in> set (segments (tl (points s))). lies_on seg (points s ! 0) = Some True
      then Inl Collision else Inr ())"
proof (cases "points s")
  case Nil
  with assms show ?thesis by simp
next
  case (Cons h rest)
  have pairs: "zip (butlast (tl (points s))) (drop 2 (points s)) = zip (butlast rest) (tl rest)"
    by (simp add: Cons drop_Suc numeral_2_eq_2)
  have "(\<exists>(p, q) \<in> set (zip (butlast rest) (tl rest)). lies_on \<lparr>head = p, tail = q\<rparr> h = Some True)
        \<longleftrightarrow> (\<exists>seg \<in> set (segments rest). lies_on seg h = Some True)"
    by (simp add: segments_def case_prod_beta)
  then show ?thesis
    by (simp add: detect_collision_def Cons collision_loop_iff drop_Suc numeral_2_eq_2)
qed

lemma detect_collision_cases:
  "points s \<noteq> [] \<Longrightarrow> detect_collision s = Inl Collision \<or> detect_collision s = Inr ()"
  by (simp add: detect_collision_eq)

lemma move_well_formed:
  assumes wf: "well_formed (points s)"
  shows "snake_move d s = Inl Collision \<or>
         (\<exists>s'. snake_move d s = Inr s' \<and> well_formed (points s') \<and>
               total_length (points s') = total_length (points s))"
proof -
  let ?s1 = "move_head d s"
  from wf have len: "\<not> length (points s) < 2" by (simp add: well_formed_def)
  from move_head_well_formed [OF wf, of d]
  have wf1: "well_formed (points ?s1)"
    and tl1: "total_length (points ?s1) = total_length (points s) + 1" by simp_all
  from total_length_ge_1 [OF wf] tl1 have "2 \<le> total_length (points ?s1)" by simp
  from shrink_tail_well_formed [OF wf1 this] tl1
  have fin: "well_formed (points (shrink_tail ?s1))"
    "total_length (points (shrink_tail ?s1)) = total_length (points s)" by simp_all
  from wf1 have "points ?s1 \<noteq> []" by (auto simp: well_formed_def)
  from detect_collision_cases [OF this] show ?thesis
  proof
    assume "detect_collision ?s1 = Inl Collision"
    then show ?thesis using len by (simp add: snake_move_def)
  next
    assume "detect_collision ?s1 = Inr ()"
    then show ?thesis using len fin by (simp add: snake_move_def)
  qed
qed

lemma well_formed_snake_inv: "well_formed ps \<Longrightarrow> snake_inv ps"
proof -
  assume wf: "well_formed ps"
  then obtain qs r t where ps: "ps = qs @ [r, t]"
    using two_points_snoc [of ps] by (auto simp: well_formed_def)
  with wf show ?thesis
    by (auto simp: well_formed_def snake_inv_def segments_snoc2)
qed

lemmas move_defs = snake_move_def move_head_def shrink_tail_def detect_collision_def
  increment_def decrement_def lies_on_def is_opp_def

section \<open>Collision detection\<close>

text \<open>
  C1. \<^verbatim>\<open>detect_collision\<close> reports a collision exactly when the head point \<^verbatim>\<open>points[0]\<close> lies
  on one of the segments formed from consecutive points starting at \<^verbatim>\<open>points[1]\<close>, which are
  the body segments without the first one. Within \<^verbatim>\<open>move\<close> the test is applied to the points
  as they are after the head has been extended or a new head prepended and before the
  tail decrement: \<^verbatim>\<open>move\<close> ends in a collision exactly when the head lies on such a segment
  of that intermediate state, and otherwise returns the intermediate state with its tail
  shrunk.
\<close>

theorem detect_collision_iff:
  "(points s \<noteq> [] \<longrightarrow>
      detect_collision s =
        (if \<exists>seg \<in> set (segments (tl (points s))). lies_on seg (points s ! 0) = Some True
         then Inl Collision else Inr ())) \<and>
   segments (tl (points s)) = tl (segments (points s)) \<and>
   snake_move dir_opt s =
     (if length (points s) < 2 then Inl IndexError
      else if \<exists>seg \<in> set (segments (tl (points (move_head dir_opt s)))).
                lies_on seg (points (move_head dir_opt s) ! 0) = Some True
      then Inl Collision
      else Inr (shrink_tail (move_head dir_opt s)))"
proof (intro conjI impI)
  assume "points s \<noteq> []"
  then show "detect_collision s =
        (if \<exists>seg \<in> set (segments (tl (points s))). lies_on seg (points s ! 0) = Some True
         then Inl Collision else Inr ())"
    by (rule detect_collision_eq)
next
  show "segments (tl (points s)) = tl (segments (points s))"
    by (rule segments_tl)
next
  show "snake_move dir_opt s =
     (if length (points s) < 2 then Inl IndexError
      else if \<exists>seg \<in> set (segments (tl (points (move_head dir_opt s)))).
                lies_on seg (points (move_head dir_opt s) ! 0) = Some True
      then Inl Collision
      else Inr (shrink_tail (move_head dir_opt s)))"
  proof (cases "length (points s) < 2")
    case True
    then show ?thesis by (simp add: snake_move_def)
  next
    case False
    then have "points (move_head dir_opt s) \<noteq> []"
      by (auto simp: move_head_def Let_def split: option.splits)
    from detect_collision_eq [OF this] False show ?thesis
      by (simp add: snake_move_def Let_def)
  qed
qed

text \<open>
  The head turns south onto the cell \<open>(1, 0)\<close> that the tail is about to vacate: the
  collision is reported, although the same test after the tail decrement would pass.
\<close>

theorem detect_collision_iff_witness:
  "points \<lparr>points = [\<lparr>y = 0, x = 0\<rparr>, \<lparr>y = 0, x = 1\<rparr>, \<lparr>y = 1, x = 1\<rparr>, \<lparr>y = 1, x = 0\<rparr>],
           direction = west\<rparr> \<noteq> [] \<and>
   points (move_head (Some south)
     \<lparr>points = [\<lparr>y = 0, x = 0\<rparr>, \<lparr>y = 0, x = 1\<rparr>, \<lparr>y = 1, x = 1\<rparr>, \<lparr>y = 1, x = 0\<rparr>],
      direction = west\<rparr>) =
     [\<lparr>y = 1, x = 0\<rparr>, \<lparr>y = 0, x = 0\<rparr>, \<lparr>y = 0, x = 1\<rparr>, \<lparr>y = 1, x = 1\<rparr>, \<lparr>y = 1, x = 0\<rparr>] \<and>
   snake_move (Some south)
     \<lparr>points = [\<lparr>y = 0, x = 0\<rparr>, \<lparr>y = 0, x = 1\<rparr>, \<lparr>y = 1, x = 1\<rparr>, \<lparr>y = 1, x = 0\<rparr>],
      direction = west\<rparr> = Inl Collision \<and>
   detect_collision (shrink_tail (move_head (Some south)
     \<lparr>points = [\<lparr>y = 0, x = 0\<rparr>, \<lparr>y = 0, x = 1\<rparr>, \<lparr>y = 1, x = 1\<rparr>, \<lparr>y = 1, x = 0\<rparr>],
      direction = west\<rparr>)) = Inr ()"
  using detect_collision_iff [of
      "\<lparr>points = [\<lparr>y = 0, x = 0\<rparr>, \<lparr>y = 0, x = 1\<rparr>, \<lparr>y = 1, x = 1\<rparr>, \<lparr>y = 1, x = 0\<rparr>],
        direction = west\<rparr>" "Some south"]
  by (simp add: move_defs geom_defs)

text \<open>
  C10. A snake of exactly two points never collides, wherever its head is: the only
  segment is the head segment, so the loop over the other segments is empty.
\<close>

theorem two_points_no_collision:
  assumes "length (points s) = 2"
  shows "detect_collision s = Inr ()"
proof -
  from assms obtain p q where "points s = [p, q]"
    by (cases "points s"; cases "tl (points s)") auto
  then show ?thesis
    by (simp add: detect_collision_def)
qed

theorem two_points_no_collision_witness:
  "length (points \<lparr>points = [\<lparr>y = 3, x = 3\<rparr>, \<lparr>y = 3, x = 3\<rparr>], direction = east\<rparr>) = 2 \<and>
   detect_collision \<lparr>points = [\<lparr>y = 3, x = 3\<rparr>, \<lparr>y = 3, x = 3\<rparr>], direction = east\<rparr> = Inr ()"
  using two_points_no_collision
    [of "\<lparr>points = [\<lparr>y = 3, x = 3\<rparr>, \<lparr>y = 3, x = 3\<rparr>], direction = east\<rparr>"]
  by simp

section \<open>The branch on the requested direction\<close>

text \<open>
  C7. For every snake state, a request for the direction opposite to the current one gives
  exactly the result of a move with no requested direction, points and direction alike: the
  opposite request takes the straight branch, never the turn branch.
\<close>

theorem opposite_request_is_straight:
  assumes "is_opp d (direction s)"
  shows "move_head (Some d) s = move_head None s \<and> snake_move (Some d) s = snake_move None s"
  using assms by (simp add: snake_move_def move_head_def)

theorem opposite_request_is_straight_witness:
  "is_opp west (direction \<lparr>points = [\<lparr>y = 10, x = 20\<rparr>, \<lparr>y = 10, x = 10\<rparr>], direction = east\<rparr>) \<and>
   snake_move (Some west) \<lparr>points = [\<lparr>y = 10, x = 20\<rparr>, \<lparr>y = 10, x = 10\<rparr>], direction = east\<rparr> =
     Inr \<lparr>points = [\<lparr>y = 10, x = 21\<rparr>, \<lparr>y = 10, x = 11\<rparr>], direction = east\<rparr> \<and>
   snake_move None \<lparr>points = [\<lparr>y = 10, x = 20\<rparr>, \<lparr>y = 10, x = 10\<rparr>], direction = east\<rparr> =
     Inr \<lparr>points = [\<lparr>y = 10, x = 21\<rparr>, \<lparr>y = 10, x = 11\<rparr>], direction = east\<rparr>"
  using opposite_request_is_straight
    [of west "\<lparr>points = [\<lparr>y = 10, x = 20\<rparr>, \<lparr>y = 10, x = 10\<rparr>], direction = east\<rparr>"]
  by (simp add: move_defs geom_defs)

text \<open>
  C8. When the requested direction is neither absent, nor the current direction, nor its
  opposite, the branch leaves the old points as they are and prepends one new point, the
  old head moved exactly one grid unit in the requested direction; the direction field
  becomes the requested direction. The old head is now the second point, unchanged. This is
  the state before the tail shrink of the same tick: the move then ends in a collision or
  returns that state with its tail shrunk, still with the requested direction.
\<close>

theorem turn_prepends_moved_head:
  assumes "2 \<le> length (points s)"
    and "d \<noteq> direction s" and "\<not> is_opp d (direction s)"
  shows "move_head (Some d) s =
           \<lparr>points = point_move d (points s ! 0) # points s, direction = d\<rparr> \<and>
         tl (points (move_head (Some d) s)) = points s \<and>
         points (move_head (Some d) s) ! 1 = points s ! 0 \<and>
         distance_from (points s ! 0) (point_move d (points s ! 0)) = 1 \<and>
         point_move d (points s ! 0) =
           (case d of
              north \<Rightarrow> \<lparr>y = y (points s ! 0) - 1, x = x (points s ! 0)\<rparr>
            | south \<Rightarrow> \<lparr>y = y (points s ! 0) + 1, x = x (points s ! 0)\<rparr>
            | east \<Rightarrow> \<lparr>y = y (points s ! 0), x = x (points s ! 0) + 1\<rparr>
            | west \<Rightarrow> \<lparr>y = y (points s ! 0), x = x (points s ! 0) - 1\<rparr>) \<and>
         (snake_move (Some d) s = Inl Collision \<or>
          snake_move (Some d) s = Inr (shrink_tail (move_head (Some d) s))) \<and>
         direction (shrink_tail (move_head (Some d) s)) = d"
proof -
  have branch: "move_head (Some d) s =
           \<lparr>points = point_move d (points s ! 0) # points s, direction = d\<rparr>"
    using assms(2,3) by (cases s) (simp add: move_head_def Let_def)
  have unit: "distance_from (points s ! 0) (point_move d (points s ! 0)) = 1"
    by (cases d) (simp_all add: distance_from_def Let_def)
  have "points (move_head (Some d) s) \<noteq> []"
    by (simp add: branch)
  from detect_collision_cases [OF this] assms(1)
  have outcome: "snake_move (Some d) s = Inl Collision \<or>
          snake_move (Some d) s = Inr (shrink_tail (move_head (Some d) s))"
    by (auto simp: snake_move_def Let_def)
  have coords: "point_move d (points s ! 0) =
           (case d of
              north \<Rightarrow> \<lparr>y = y (points s ! 0) - 1, x = x (points s ! 0)\<rparr>
            | south \<Rightarrow> \<lparr>y = y (points s ! 0) + 1, x = x (points s ! 0)\<rparr>
            | east \<Rightarrow> \<lparr>y = y (points s ! 0), x = x (points s ! 0) + 1\<rparr>
            | west \<Rightarrow> \<lparr>y = y (points s ! 0), x = x (points s ! 0) - 1\<rparr>)"
    by (cases d; cases "points s ! 0") simp_all
  have "direction (shrink_tail (move_head (Some d) s)) = d"
    by (simp add: branch shrink_tail_def Let_def)
  with branch unit outcome coords show ?thesis by simp
qed

theorem turn_prepends_moved_head_witness:
  "2 \<le> length (points \<lparr>points = [\<lparr>y = 10, x = 21\<rparr>, \<lparr>y = 10, x = 11\<rparr>], direction = east\<rparr>) \<and>
   north \<noteq> direction \<lparr>points = [\<lparr>y = 10, x = 21\<rparr>, \<lparr>y = 10, x = 11\<rparr>], direction = east\<rparr> \<and>
   \<not> is_opp north (direction \<lparr>points = [\<lparr>y = 10, x = 21\<rparr>, \<lparr>y = 10, x = 11\<rparr>], direction = east\<rparr>) \<and>
   move_head (Some north) \<lparr>points = [\<lparr>y = 10, x = 21\<rparr>, \<lparr>y = 10, x = 11\<rparr>], direction = east\<rparr> =
     \<lparr>points = [\<lparr>y = 9, x = 21\<rparr>, \<lparr>y = 10, x = 21\<rparr>, \<lparr>y = 10, x = 11\<rparr>], direction = north\<rparr>"
  using turn_prepends_moved_head
    [of "\<lparr>points = [\<lparr>y = 10, x = 21\<rparr>, \<lparr>y = 10, x = 11\<rparr>], direction = east\<rparr>" north]
  by (simp add: is_opp_def)

section \<open>The end-to-end scenario\<close>

text \<open>
  C3, as the code has it. From points \<open>[(10,20), (10,10)]\<close> and direction east, a move with no
  direction yields \<open>[(10,21), (10,11)]\<close>. A move north from there prepends \<open>(9,21)\<close>, giving
  \<open>[(9,21), (10,21), (10,11)]\<close> before the tail shrink, and returns
  \<open>[(9,21), (10,21), (10,12)]\<close> with direction north: the tail shrinks in the turn tick too.
\<close>

theorem scenario_moves:
  "snake_move None \<lparr>points = [\<lparr>y = 10, x = 20\<rparr>, \<lparr>y = 10, x = 10\<rparr>], direction = east\<rparr> =
     Inr \<lparr>points = [\<lparr>y = 10, x = 21\<rparr>, \<lparr>y = 10, x = 11\<rparr>], direction = east\<rparr> \<and>
   move_head (Some north) \<lparr>points = [\<lparr>y = 10, x = 21\<rparr>, \<lparr>y = 10, x = 11\<rparr>], direction = east\<rparr> =
     \<lparr>points = [\<lparr>y = 9, x = 21\<rparr>, \<lparr>y = 10, x = 21\<rparr>, \<lparr>y = 10, x = 11\<rparr>], direction = north\<rparr> \<and>
   snake_move (Some north) \<lparr>points = [\<lparr>y = 10, x = 21\<rparr>, \<lparr>y = 10, x = 11\<rparr>], direction = east\<rparr> =
     Inr \<lparr>points = [\<lparr>y = 9, x = 21\<rparr>, \<lparr>y = 10, x = 21\<rparr>, \<lparr>y = 10, x = 12\<rparr>], direction = north\<rparr>"
  by (simp add: move_defs geom_defs)

text \<open>
  C3 as stated fails: the move north does not return \<open>[(9,21), (10,21), (10,11)]\<close>.
\<close>

theorem scenario_turn_counterexample:
  "snake_move (Some north) \<lparr>points = [\<lparr>y = 10, x = 21\<rparr>, \<lparr>y = 10, x = 11\<rparr>], direction = east\<rparr> \<noteq>
     Inr \<lparr>points = [\<lparr>y = 9, x = 21\<rparr>, \<lparr>y = 10, x = 21\<rparr>, \<lparr>y = 10, x = 11\<rparr>], direction = north\<rparr>"
  by (simp add: move_defs geom_defs)

section \<open>Segments\<close>

text \<open>
  The half of C4 that the code meets: an axis-aligned segment of length 1 has length 0
  after one \<^verbatim>\<open>decrement\<close>, the tail having moved onto the head.
\<close>

lemma decrement_unit_segment:
  assumes "axis_aligned seg" and "seg_length seg = 1"
  shows "seg_length (decrement seg) = 0 \<and> tail (decrement seg) = head seg"
proof -
  from assms have len: "seg_length (decrement seg) = 0" and hd: "head (decrement seg) = head seg"
    using decrement_good [of seg] by simp_all
  from len have "head (decrement seg) = tail (decrement seg)"
    by (simp add: seg_length_zero_iff)
  with len hd show ?thesis by simp
qed

text \<open>
  C4. An axis-aligned segment of length 1 has length 0 after one \<^verbatim>\<open>decrement\<close>, and
  \<^verbatim>\<open>decrement\<close> is to leave a segment of length 0 (head equal to tail) unchanged. The code
  does not do the latter. The docstring of \<^verbatim>\<open>decrement\<close> reads "Decrease the line segment
  length by 1 from the tail", and where head and tail differ both branches move the tail
  toward the head; but a segment of length 0 counts as horizontal, \<^verbatim>\<open>head.x < tail.x\<close> is
  false, and the unguarded \<^verbatim>\<open>else\<close> moves the tail east, away from the head. At the segment
  whose two ends are distinct points at \<open>(3,4)\<close> the tail becomes \<open>(3,5)\<close> and the length
  grows from 0 to 1. (The model takes the two ends of a segment as distinct objects; were
  they one object, both ends would move east, and the segment would change as well.)
\<close>

theorem decrement_zero_length_grows:
  "seg_length \<lparr>head = \<lparr>y = 3, x = 4\<rparr>, tail = \<lparr>y = 3, x = 4\<rparr>\<rparr> = 0 \<and>
   decrement \<lparr>head = \<lparr>y = 3, x = 4\<rparr>, tail = \<lparr>y = 3, x = 4\<rparr>\<rparr> =
     \<lparr>head = \<lparr>y = 3, x = 4\<rparr>, tail = \<lparr>y = 3, x = 5\<rparr>\<rparr> \<and>
   decrement \<lparr>head = \<lparr>y = 3, x = 4\<rparr>, tail = \<lparr>y = 3, x = 4\<rparr>\<rparr> \<noteq>
     \<lparr>head = \<lparr>y = 3, x = 4\<rparr>, tail = \<lparr>y = 3, x = 4\<rparr>\<rparr> \<and>
   seg_length (decrement \<lparr>head = \<lparr>y = 3, x = 4\<rparr>, tail = \<lparr>y = 3, x = 4\<rparr>\<rparr>) = 1"
  by (simp add: decrement_def geom_defs)

text \<open>
  C5, as the code has it. For the horizontal segment from \<open>(5,2)\<close> to \<open>(5,8)\<close> and the
  vertical segment from \<open>(5,2)\<close> to \<open>(1,2)\<close>, \<^verbatim>\<open>join\<close> writes the lower-left corner glyph at
  \<open>(5,2)\<close>, whichever of the two is the receiver and whichever way round the endpoints are
  given: the shared point is left of both ends of the horizontal segment and below both
  ends of the vertical one, not above both.
\<close>

theorem join_example:
  "join \<lparr>head = \<lparr>y = 5, x = 2\<rparr>, tail = \<lparr>y = 5, x = 8\<rparr>\<rparr>
        (Some \<lparr>head = \<lparr>y = 5, x = 2\<rparr>, tail = \<lparr>y = 1, x = 2\<rparr>\<rparr>) w = w((5, 2) \<mapsto> ACS_LLCORNER) \<and>
   join \<lparr>head = \<lparr>y = 5, x = 2\<rparr>, tail = \<lparr>y = 1, x = 2\<rparr>\<rparr>
        (Some \<lparr>head = \<lparr>y = 5, x = 2\<rparr>, tail = \<lparr>y = 5, x = 8\<rparr>\<rparr>) w = w((5, 2) \<mapsto> ACS_LLCORNER) \<and>
   join \<lparr>head = \<lparr>y = 5, x = 8\<rparr>, tail = \<lparr>y = 5, x = 2\<rparr>\<rparr>
        (Some \<lparr>head = \<lparr>y = 1, x = 2\<rparr>, tail = \<lparr>y = 5, x = 2\<rparr>\<rparr>) w = w((5, 2) \<mapsto> ACS_LLCORNER) \<and>
   join \<lparr>head = \<lparr>y = 1, x = 2\<rparr>, tail = \<lparr>y = 5, x = 2\<rparr>\<rparr>
        (Some \<lparr>head = \<lparr>y = 5, x = 2\<rparr>, tail = \<lparr>y = 5, x = 8\<rparr>\<rparr>) w = w((5, 2) \<mapsto> ACS_LLCORNER) \<and>
   is_above \<lparr>y = 5, x = 2\<rparr> \<lparr>y = 1, x = 2\<rparr> = False"
  by (simp add: join_def intersection_point_def join_char_def addch_def
      is_horizontal_def is_vertical_def has_same_y_def has_same_x_def
      is_above_def is_below_def is_to_the_left_of_def is_to_the_right_of_def)

text \<open>
  C5 as stated fails: the glyph written at \<open>(5,2)\<close> is not the upper-left corner.
\<close>

theorem join_example_counterexample:
  "join \<lparr>head = \<lparr>y = 5, x = 2\<rparr>, tail = \<lparr>y = 5, x = 8\<rparr>\<rparr>
        (Some \<lparr>head = \<lparr>y = 5, x = 2\<rparr>, tail = \<lparr>y = 1, x = 2\<rparr>\<rparr>) Map.empty (5, 2) \<noteq>
     Some ACS_ULCORNER"
  by (simp add: join_def intersection_point_def join_char_def addch_def
      is_horizontal_def is_vertical_def has_same_y_def has_same_x_def
      is_above_def is_below_def is_to_the_left_of_def is_to_the_right_of_def)

section \<open>Body length and the structural invariant\<close>

text \<open>
  C2. For a snake with at least two points whose segments are all axis-aligned and of
  positive length, a move whose requested direction is absent, the current direction or
  its opposite leaves the total body length unchanged: the move either ends the game by a
  collision or returns a snake of the same total length.
\<close>

theorem straight_move_keeps_total_length:
  assumes "well_formed (points s)" and "straight_request dir_opt s"
  shows "snake_move dir_opt s = Inl Collision \<or>
         (\<exists>s'. snake_move dir_opt s = Inr s' \<and>
               total_length (points s') = total_length (points s))"
  using move_well_formed [OF assms(1), of dir_opt] by blast

theorem straight_move_keeps_total_length_witness:
  "well_formed (points \<lparr>points = [\<lparr>y = 5, x = 5\<rparr>, \<lparr>y = 5, x = 3\<rparr>, \<lparr>y = 4, x = 3\<rparr>],
                       direction = east\<rparr>) \<and>
   straight_request None \<lparr>points = [\<lparr>y = 5, x = 5\<rparr>, \<lparr>y = 5, x = 3\<rparr>, \<lparr>y = 4, x = 3\<rparr>],
                          direction = east\<rparr> \<and>
   snake_move None \<lparr>points = [\<lparr>y = 5, x = 5\<rparr>, \<lparr>y = 5, x = 3\<rparr>, \<lparr>y = 4, x = 3\<rparr>],
                    direction = east\<rparr> =
     Inr \<lparr>points = [\<lparr>y = 5, x = 6\<rparr>, \<lparr>y = 5, x = 3\<rparr>], direction = east\<rparr> \<and>
   total_length [\<lparr>y = 5, x = 6\<rparr>, \<lparr>y = 5, x = 3\<rparr>] =
     total_length [\<lparr>y = 5, x = 5\<rparr>, \<lparr>y = 5, x = 3\<rparr>, \<lparr>y = 4, x = 3\<rparr>]"
  using straight_move_keeps_total_length
    [of "\<lparr>points = [\<lparr>y = 5, x = 5\<rparr>, \<lparr>y = 5, x = 3\<rparr>, \<lparr>y = 4, x = 3\<rparr>], direction = east\<rparr>" None]
  by (simp add: well_formed_def straight_request_def total_length_def move_defs geom_defs)

text \<open>
  C6, as the code has it. On a well-formed snake a turn (a requested direction that is
  neither the current one nor its opposite) prepends a unit segment, so the body is one
  unit longer than before the move only between the prepend and the tail decrement of the
  same tick. The tail decrement of that tick takes the unit back: the move either ends
  the game by a collision or returns a snake whose total body length equals the length
  before the move. Straight ticks keep the total body length constant as well.
\<close>

theorem turn_move_total_length:
  assumes "well_formed (points s)"
    and "d \<noteq> direction s" and "\<not> is_opp d (direction s)"
  shows "total_length (points (move_head (Some d) s)) = total_length (points s) + 1 \<and>
         (snake_move (Some d) s = Inl Collision \<or>
          (\<exists>s'. snake_move (Some d) s = Inr s' \<and>
                total_length (points s') = total_length (points s))) \<and>
         (straight_request dir_opt s \<longrightarrow>
            snake_move dir_opt s = Inl Collision \<or>
            (\<exists>s'. snake_move dir_opt s = Inr s' \<and>
                  total_length (points s') = total_length (points s)))"
  using move_head_well_formed [OF assms(1), of "Some d"]
    move_well_formed [OF assms(1), of "Some d"]
    move_well_formed [OF assms(1), of dir_opt]
  by blast

theorem turn_move_total_length_witness:
  "well_formed (points \<lparr>points = [\<lparr>y = 10, x = 21\<rparr>, \<lparr>y = 10, x = 11\<rparr>], direction = east\<rparr>) \<and>
   north \<noteq> direction \<lparr>points = [\<lparr>y = 10, x = 21\<rparr>, \<lparr>y = 10, x = 11\<rparr>], direction = east\<rparr> \<and>
   \<not> is_opp north (direction \<lparr>points = [\<lparr>y = 10, x = 21\<rparr>, \<lparr>y = 10, x = 11\<rparr>], direction = east\<rparr>) \<and>
   total_length (points (move_head (Some north)
     \<lparr>points = [\<lparr>y = 10, x = 21\<rparr>, \<lparr>y = 10, x = 11\<rparr>], direction = east\<rparr>)) = 11 \<and>
   snake_move (Some north) \<lparr>points = [\<lparr>y = 10, x = 21\<rparr>, \<lparr>y = 10, x = 11\<rparr>], direction = east\<rparr> =
     Inr \<lparr>points = [\<lparr>y = 9, x = 21\<rparr>, \<lparr>y = 10, x = 21\<rparr>, \<lparr>y = 10, x = 12\<rparr>], direction = north\<rparr> \<and>
   total_length [\<lparr>y = 9, x = 21\<rparr>, \<lparr>y = 10, x = 21\<rparr>, \<lparr>y = 10, x = 12\<rparr>] = 10 \<and>
   total_length [\<lparr>y = 10, x = 21\<rparr>, \<lparr>y = 10, x = 11\<rparr>] = 10"
  using turn_move_total_length
    [of "\<lparr>points = [\<lparr>y = 10, x = 21\<rparr>, \<lparr>y = 10, x = 11\<rparr>], direction = east\<rparr>" north None]
  by (simp add: well_formed_def total_length_def move_defs geom_defs)

text \<open>
  C6 as stated fails: after a turn north the total body length is the length before the
  move, not one unit more, and the straight tick that follows leaves it there: no tail
  shrink is left to catch up.
\<close>

theorem turn_move_total_length_counterexample:
  "north \<noteq> east \<and> \<not> is_opp north east \<and>
   snake_move (Some north) \<lparr>points = [\<lparr>y = 10, x = 21\<rparr>, \<lparr>y = 10, x = 11\<rparr>], direction = east\<rparr> =
     Inr \<lparr>points = [\<lparr>y = 9, x = 21\<rparr>, \<lparr>y = 10, x = 21\<rparr>, \<lparr>y = 10, x = 12\<rparr>], direction = north\<rparr> \<and>
   total_length [\<lparr>y = 9, x = 21\<rparr>, \<lparr>y = 10, x = 21\<rparr>, \<lparr>y = 10, x = 12\<rparr>] \<noteq>
     total_length [\<lparr>y = 10, x = 21\<rparr>, \<lparr>y = 10, x = 11\<rparr>] + 1 \<and>
   snake_move None
     \<lparr>points = [\<lparr>y = 9, x = 21\<rparr>, \<lparr>y = 10, x = 21\<rparr>, \<lparr>y = 10, x = 12\<rparr>], direction = north\<rparr> =
     Inr \<lparr>points = [\<lparr>y = 8, x = 21\<rparr>, \<lparr>y = 10, x = 21\<rparr>, \<lparr>y = 10, x = 13\<rparr>], direction = north\<rparr> \<and>
   total_length [\<lparr>y = 8, x = 21\<rparr>, \<lparr>y = 10, x = 21\<rparr>, \<lparr>y = 10, x = 13\<rparr>] =
     total_length [\<lparr>y = 10, x = 21\<rparr>, \<lparr>y = 10, x = 11\<rparr>]"
  by (simp add: total_length_def move_defs geom_defs)

text \<open>
  C9, as the code has it. Every move that does not end in a collision, whatever the
  requested direction, keeps a snake well formed: at least two points, every consecutive
  pair axis-aligned, and every segment, the tail segment among them, of positive length.
  The invariant needs all segments of positive length, not the tail segment alone.
\<close>

theorem move_preserves_well_formed:
  assumes "well_formed (points s)"
  shows "snake_move dir_opt s = Inl Collision \<or>
         (\<exists>s'. snake_move dir_opt s = Inr s' \<and> well_formed (points s') \<and>
               snake_inv (points s'))"
  using move_well_formed [OF assms, of dir_opt] well_formed_snake_inv by blast

theorem move_preserves_well_formed_witness:
  "well_formed (points \<lparr>points = [\<lparr>y = 5, x = 5\<rparr>, \<lparr>y = 5, x = 3\<rparr>, \<lparr>y = 4, x = 3\<rparr>],
                       direction = east\<rparr>) \<and>
   snake_move (Some south) \<lparr>points = [\<lparr>y = 5, x = 5\<rparr>, \<lparr>y = 5, x = 3\<rparr>, \<lparr>y = 4, x = 3\<rparr>],
                            direction = east\<rparr> =
     Inr \<lparr>points = [\<lparr>y = 6, x = 5\<rparr>, \<lparr>y = 5, x = 5\<rparr>, \<lparr>y = 5, x = 3\<rparr>], direction = south\<rparr> \<and>
   well_formed [\<lparr>y = 6, x = 5\<rparr>, \<lparr>y = 5, x = 5\<rparr>, \<lparr>y = 5, x = 3\<rparr>] \<and>
   snake_inv [\<lparr>y = 6, x = 5\<rparr>, \<lparr>y = 5, x = 5\<rparr>, \<lparr>y = 5, x = 3\<rparr>]"
  using move_preserves_well_formed
    [of "\<lparr>points = [\<lparr>y = 5, x = 5\<rparr>, \<lparr>y = 5, x = 3\<rparr>, \<lparr>y = 4, x = 3\<rparr>], direction = east\<rparr>"
        "Some south"]
  by (simp add: well_formed_def snake_inv_def move_defs geom_defs)

text \<open>
  C9 as stated fails. A snake with at least two points, axis-aligned segments and a tail
  segment of length 1, but a segment of length 0 before it, moves without collision to a
  snake whose tail segment has length 0. And the two-point snake whose points coincide
  moves without collision to a snake of a single point.
\<close>

theorem structural_invariant_counterexample:
  "snake_inv [\<lparr>y = 0, x = 5\<rparr>, \<lparr>y = 0, x = 3\<rparr>, \<lparr>y = 0, x = 3\<rparr>, \<lparr>y = 0, x = 2\<rparr>] \<and>
   snake_move None
     \<lparr>points = [\<lparr>y = 0, x = 5\<rparr>, \<lparr>y = 0, x = 3\<rparr>, \<lparr>y = 0, x = 3\<rparr>, \<lparr>y = 0, x = 2\<rparr>],
      direction = east\<rparr> =
     Inr \<lparr>points = [\<lparr>y = 0, x = 6\<rparr>, \<lparr>y = 0, x = 3\<rparr>, \<lparr>y = 0, x = 3\<rparr>], direction = east\<rparr> \<and>
   \<not> snake_inv [\<lparr>y = 0, x = 6\<rparr>, \<lparr>y = 0, x = 3\<rparr>, \<lparr>y = 0, x = 3\<rparr>] \<and>
   seg_length (last (segments [\<lparr>y = 0, x = 6\<rparr>, \<lparr>y = 0, x = 3\<rparr>, \<lparr>y = 0, x = 3\<rparr>])) = 0 \<and>
   snake_move None \<lparr>points = [\<lparr>y = 0, x = 0\<rparr>, \<lparr>y = 0, x = 0\<rparr>], direction = east\<rparr> =
     Inr \<lparr>points = [\<lparr>y = 0, x = 1\<rparr>], direction = east\<rparr>"
  by (simp add: snake_inv_def move_defs geom_defs)

end
